theory Spec2Isabelle
  imports Complex_Main "HOL-Library.Log_Nat"
begin

section \<open>Errors and arrays\<close>

text \<open>
  The resampling and tone-correction routines of the image editor work on numpy arrays.
  An array of shape \<open>(rows, columns)\<close> is modelled as a list of rows, an array of shape
  \<open>(rows, columns, channels)\<close> as a list of rows of pixels, a pixel being the list of its
  channel samples.  Every exception the routines can raise is a value of \<open>error\<close>, and a
  routine that may raise returns \<open>error + 'a\<close>.
\<close>

datatype error = IndexError | ValueError | ZeroDivisionError | OverflowError

type_synonym plane = "nat list list"

text \<open>\<open>image.shape\<close> of a two-dimensional array.\<close>

definition shape2 :: "'a list list \<Rightarrow> nat \<times> nat" where
  "shape2 img = (length img, if img = [] then 0 else length (hd img))"

text \<open>numpy arrays are rectangular: every row has the length of the first one.\<close>

definition rect :: "'a list list \<Rightarrow> bool" where
  "rect img = list_all (\<lambda>row. length row = snd (shape2 img)) img"

section \<open>Histogram of a channel plane\<close>

text \<open>
  \<open>compute_hist_for_channel\<close> is compiled by numba, which does not check array bounds:
  \<open>hist[i] += 1\<close> with an index outside the 256 buckets writes outside the buffer of
  \<open>hist\<close> and leaves every bucket as it is.
\<close>

definition hist_incr :: "nat list \<Rightarrow> nat \<Rightarrow> nat list" where
  "hist_incr hist i = (if i < length hist then hist[i := hist ! i + 1] else hist)"

text \<open>
  The two nested loops of \<open>compute_hist_for_channel\<close>, over the index pairs \<open>(x, y)\<close> in
  the order the loops visit them.
\<close>

fun hist_loop :: "plane \<Rightarrow> (nat \<times> nat) list \<Rightarrow> nat list \<Rightarrow> nat list" where
  "hist_loop img [] hist = hist"
| "hist_loop img ((x, y) # rest) hist = hist_loop img rest (hist_incr hist (img ! x ! y))"

definition compute_hist_for_channel :: "plane \<Rightarrow> nat list" where
  "compute_hist_for_channel img =
     (let (image_h, image_w) = shape2 img
      in hist_loop img (List.product [0..<image_h] [0..<image_w]) (replicate 256 0))"

section \<open>Binary64 arithmetic\<close>

text \<open>
  Python floats and numpy's \<open>float64\<close> are IEEE binary64 numbers.  A finite binary64
  number is a rational, and every arithmetic operation returns the exact result rounded
  to the nearest number with a 53-bit significand, ties to even.  \<open>fl\<close> is that rounding
  (for the normal range: no overflow to infinity and no subnormals, which the sample and
  coordinate values of this program never reach).
\<close>

definition pow2 :: "int \<Rightarrow> rat" where
  "pow2 e = (if 0 \<le> e then 2 ^ nat e else 1 / 2 ^ nat (- e))"

text \<open>The binary exponent \<open>\<lfloor>log\<^sub>2 x\<rfloor>\<close> of a positive rational, from the bit lengths of
  numerator and denominator.\<close>

definition exponent :: "rat \<Rightarrow> int" where
  "exponent x =
     (let (p, q) = quotient_of x;
          e0 = bitlen p - bitlen q
      in if pow2 e0 \<le> x then e0 else e0 - 1)"

definition round_half_even :: "rat \<Rightarrow> int" where
  "round_half_even r =
     (let f = \<lfloor>r\<rfloor>; d = r - of_int f
      in if d < 1 / 2 then f
         else if 1 / 2 < d then f + 1
         else if even f then f else f + 1)"

definition fl :: "rat \<Rightarrow> rat" where
  "fl x =
     (if x = 0 then 0
      else let u = pow2 (exponent \<bar>x\<bar> - 52)
           in of_int (round_half_even (x / u)) * u)"

definition fadd :: "rat \<Rightarrow> rat \<Rightarrow> rat" where
  "fadd x y = fl (x + y)"

definition fsub :: "rat \<Rightarrow> rat \<Rightarrow> rat" where
  "fsub x y = fl (x - y)"

definition fmul :: "rat \<Rightarrow> rat \<Rightarrow> rat" where
  "fmul x y = fl (x * y)"

definition fdiv :: "rat \<Rightarrow> rat \<Rightarrow> rat" where
  "fdiv x y = fl (x / y)"

text \<open>\<open>int(x)\<close> of a float: truncation towards zero.\<close>

definition trunc :: "rat \<Rightarrow> int" where
  "trunc x = (if 0 \<le> x then \<lfloor>x\<rfloor> else \<lceil>x\<rceil>)"

text \<open>
  numpy's division of scalars and arrays does not raise on a zero divisor: it returns
  NaN for \<open>0/0\<close> and an infinity otherwise (with a RuntimeWarning).  The results of such a
  division are values of \<open>np_float\<close>.
\<close>

datatype np_float = Fin rat | PInf | NInf | NaN

definition np_true_divide :: "int \<Rightarrow> int \<Rightarrow> np_float" where
  "np_true_divide n d =
     (if d = 0 then (if n = 0 then NaN else if 0 < n then PInf else NInf)
      else Fin (fdiv (of_int n) (of_int d)))"

text \<open>
  \<open>astype(np.uint8)\<close> of a float64 array is a C cast.  A value in range is truncated
  towards zero.  numpy does not clamp: on the platforms numpy is built for, a finite
  value out of range is truncated and then reduced modulo 256, and NaN and the infinities
  become 0.
\<close>

definition astype_uint8 :: "rat \<Rightarrow> nat" where
  "astype_uint8 x = nat (trunc x mod 256)"

fun np_astype_uint8 :: "np_float \<Rightarrow> nat" where
  "np_astype_uint8 (Fin x) = astype_uint8 x"
| "np_astype_uint8 PInf = 0"
| "np_astype_uint8 NInf = 0"
| "np_astype_uint8 NaN = 0"

section \<open>The current image\<close>

text \<open>
  The image being edited is a numpy array of shape \<open>(rows, columns, channels)\<close> with an
  integer sample type, held in the process-wide \<open>ImageObjectSingleton.img_array\<close>.  Every
  transform reads it, and assigns the new array to it as its last step before display;
  a transform that raises leaves it as it was.
\<close>

datatype sample_type = UInt8 | UInt16

record grid =
  dtype :: sample_type
  px :: "nat list list list"

record singleton =
  img_array :: grid

definition shape3 :: "'a list list list \<Rightarrow> nat \<times> nat \<times> nat" where
  "shape3 a =
     (length a,
      if a = [] then 0 else length (hd a),
      if a = [] \<or> hd a = [] then 0 else length (hd (hd a)))"

text \<open>The bits of a sample type, and the effect of running a transform on the state.\<close>

fun depth :: "sample_type \<Rightarrow> nat" where
  "depth UInt8 = 8"
| "depth UInt16 = 16"


text \<open>Indexing one axis of an array: a negative index counts from the end, an index
  outside the axis raises.\<close>

definition np_get :: "'a list \<Rightarrow> int \<Rightarrow> error + 'a" where
  "np_get xs i =
     (let n = int (length xs); k = (if i < 0 then n + i else i)
      in if 0 \<le> k \<and> k < n then Inr (xs ! nat k) else Inl IndexError)"

text \<open>Running a loop body over a list of indices; the first exception ends the loop.\<close>

fun for_each :: "('a \<Rightarrow> error + 'b) \<Rightarrow> 'a list \<Rightarrow> error + 'b list" where
  "for_each f [] = Inr []"
| "for_each f (x # xs) =
     (case f x of
        Inl e \<Rightarrow> Inl e
      | Inr y \<Rightarrow> (case for_each f xs of Inl e \<Rightarrow> Inl e | Inr ys \<Rightarrow> Inr (y # ys)))"

section \<open>Nearest-neighbour resize\<close>

text \<open>
  \<open>np.ceil(np.arange(0, stop, step)).astype(int)\<close>: \<open>arange\<close> has
  \<open>\<lceil>stop / step\<rceil>\<close> entries, the quotient taken in binary64, and entry \<open>i\<close> is \<open>i * step\<close>.
  A zero step (an empty source axis) has no length.
\<close>

definition ceil_arange :: "nat \<Rightarrow> rat \<Rightarrow> error + int list" where
  "ceil_arange stop step =
     (if step = 0 then Inl ValueError
      else Inr (map (\<lambda>i. \<lceil>fmul (of_nat i) step\<rceil>) [0..<nat \<lceil>fdiv (of_nat stop) step\<rceil>]))"

text \<open>\<open>index[np.where(index == original)] -= 1\<close>\<close>

definition clamp_last :: "nat \<Rightarrow> int list \<Rightarrow> int list" where
  "clamp_last original index = map (\<lambda>k. if k = int original then k - 1 else k) index"

text \<open>\<open>a[index_x, :][:, index_y]\<close>: the rows picked by \<open>index_x\<close>, then of each the entries
  picked by \<open>index_y\<close>.\<close>

definition gather :: "'a list list \<Rightarrow> int list \<Rightarrow> int list \<Rightarrow> error + 'a list list" where
  "gather a index_x index_y =
     (case for_each (np_get a) index_x of
        Inl e \<Rightarrow> Inl e
      | Inr rows \<Rightarrow> for_each (\<lambda>row. for_each (np_get row) index_y) rows)"

text \<open>
  \<open>resize_neighbour\<close>.  The name \<open>original_width\<close> is bound to the first axis of the
  array and \<open>width\<close> is the first axis of the new array.  The first three channels are
  copied into a \<open>uint8\<close> array of \<open>channel\<close> channels, the others stay zero.  Slicing channel
  0, 1 and 2 raises on an array with fewer channels; \<open>np.zeros\<close> raises on a negative
  dimension; the two scale divisions are Python divisions and raise on zero; the
  assignment into the new array raises when the shapes differ.
\<close>

definition resize_neighbour :: "int \<Rightarrow> int \<Rightarrow> singleton \<Rightarrow> error + singleton" where
  "resize_neighbour height width st =
     (let img = px (img_array st);
          (original_width, original_height, channel) = shape3 img
      in if channel < 3 then Inl IndexError
         else if width < 0 \<or> height < 0 then Inl ValueError
         else if width = 0 then Inl ZeroDivisionError
         else let x_scale = fdiv (of_nat original_width) (of_int width)
         in if height = 0 then Inl ZeroDivisionError
         else let y_scale = fdiv (of_nat original_height) (of_int height)
         in case ceil_arange original_width x_scale of
              Inl e \<Rightarrow> Inl e
            | Inr ix \<Rightarrow>
         (case ceil_arange original_height y_scale of
              Inl e \<Rightarrow> Inl e
            | Inr iy \<Rightarrow>
         (case gather img (clamp_last original_width ix) (clamp_last original_height iy) of
              Inl e \<Rightarrow> Inl e
            | Inr picked \<Rightarrow>
                if int (length ix) = width \<and> int (length iy) = height
                then Inr (st\<lparr>img_array :=
                       \<lparr>dtype = UInt8,
                        px = map (map (\<lambda>p. map (\<lambda>s. s mod 256) (take 3 p)
                                             @ replicate (channel - 3) 0)) picked\<rparr>\<rparr>)
                else Inl ValueError)))"

section \<open>Bilinear resize\<close>

text \<open>
  One sample of the interpolated pixel, every operation in binary64 and in the order the
  expression is written; \<open>a, b, c, d\<close> are the samples of the four neighbours.
\<close>

definition bilinear_sample :: "rat \<Rightarrow> rat \<Rightarrow> nat \<Rightarrow> nat \<Rightarrow> nat \<Rightarrow> nat \<Rightarrow> rat" where
  "bilinear_sample x_weight y_weight a b c d =
     fadd (fadd (fadd
       (fmul (fmul (of_nat a) (fsub 1 x_weight)) (fsub 1 y_weight))
       (fmul (fmul (of_nat b) x_weight) (fsub 1 y_weight)))
       (fmul (fmul (of_nat c) y_weight) (fsub 1 x_weight)))
       (fmul (fmul (of_nat d) x_weight) y_weight)"

text \<open>The interpolated pixel: the expression is elementwise over the samples of the
  four neighbouring pixels, and the assignment into the \<open>uint8\<close> array casts each value.\<close>

fun interpolate :: "rat \<Rightarrow> rat \<Rightarrow> nat list \<Rightarrow> nat list \<Rightarrow> nat list \<Rightarrow> nat list \<Rightarrow> nat list" where
  "interpolate x_weight y_weight (a # as) (b # bs) (c # cs) (d # ds) =
     astype_uint8 (bilinear_sample x_weight y_weight a b c d)
       # interpolate x_weight y_weight as bs cs ds"
| "interpolate x_weight y_weight as bs cs ds = []"

text \<open>
  The loop body for the target pixel in row \<open>i\<close> and column \<open>j\<close>.  The four neighbours are
  read as they are indexed, without a clamp; the pixel is stored into the three-channel
  \<open>uint8\<close> array, which broadcasts a one-channel pixel and rejects any other channel count.
\<close>

definition bilinear_pixel :: "nat list list list \<Rightarrow> rat \<Rightarrow> rat \<Rightarrow> nat \<Rightarrow> nat \<Rightarrow> error + nat list" where
  "bilinear_pixel img x_ratio y_ratio i j =
     (let x = fmul x_ratio (of_nat j); y = fmul y_ratio (of_nat i);
          x_l = \<lfloor>x\<rfloor>; y_l = \<lfloor>y\<rfloor>;
          x_h = \<lceil>x\<rceil>; y_h = \<lceil>y\<rceil>;
          x_weight = fsub x (of_int x_l);
          y_weight = fsub y (of_int y_l)
      in case np_get img y_l of Inl e \<Rightarrow> Inl e | Inr row_l \<Rightarrow>
        (case np_get row_l x_l of Inl e \<Rightarrow> Inl e | Inr a \<Rightarrow>
        (case np_get row_l x_h of Inl e \<Rightarrow> Inl e | Inr b \<Rightarrow>
        (case np_get img y_h of Inl e \<Rightarrow> Inl e | Inr row_h \<Rightarrow>
        (case np_get row_h x_l of Inl e \<Rightarrow> Inl e | Inr c \<Rightarrow>
        (case np_get row_h x_h of Inl e \<Rightarrow> Inl e | Inr d \<Rightarrow>
           (let pixel = interpolate x_weight y_weight a b c d
            in if length pixel = 3 then Inr pixel
               else if length pixel = 1 then Inr (replicate 3 (hd pixel))
               else Inl ValueError)))))))"

text \<open>The inner loop, over the columns \<open>j\<close> of the target row \<open>i\<close>.\<close>

definition bilinear_row :: "nat list list list \<Rightarrow> rat \<Rightarrow> rat \<Rightarrow> int \<Rightarrow> nat \<Rightarrow> error + nat list list" where
  "bilinear_row img x_ratio y_ratio width i =
     for_each (bilinear_pixel img x_ratio y_ratio i) [0..<nat width]"

text \<open>
  \<open>bilinear_resize\<close>.  \<open>Image.new('RGB', (width, height))\<close> raises on a negative size
  and gives \<open>height\<close> rows of \<open>width\<close> pixels of three 8-bit samples.
\<close>

definition bilinear_resize :: "int \<Rightarrow> int \<Rightarrow> singleton \<Rightarrow> error + singleton" where
  "bilinear_resize height width st =
     (let img = px (img_array st);
          (img_height, img_width, channel) = shape3 img
      in if width < 0 \<or> height < 0 then Inl ValueError
         else let x_ratio = (if 1 < width then fdiv (of_int (int img_width - 1)) (of_int (width - 1)) else 0);
                  y_ratio = (if 1 < height then fdiv (of_int (int img_height - 1)) (of_int (height - 1)) else 0)
         in case for_each (bilinear_row img x_ratio y_ratio width) [0..<nat height] of
              Inl e \<Rightarrow> Inl e
            | Inr resized \<Rightarrow> Inr (st\<lparr>img_array := \<lparr>dtype = UInt8, px = resized\<rparr>\<rparr>))"

section \<open>Four-tap resize: Mitchell-Netravali and Lanczos\<close>

text \<open>
  Modelled from the spec: \<open>padding\<close> of \<open>lib.image_transforms.image_kernels\<close>, which is not
  among the sources.  The source plane is padded by two samples on each border using
  edge replication.
\<close>

definition pad2 :: "'a list \<Rightarrow> 'a list" where
  "pad2 xs = (if xs = [] then [] else replicate 2 (hd xs) @ xs @ replicate 2 (last xs))"

definition padding :: "nat list list list \<Rightarrow> nat list list list" where
  "padding img = pad2 (map pad2 img)"

text \<open>
  Modelled from the spec: \<open>bicubic_kernel\<close> of \<open>lib.image_transforms.image_kernels\<close>, which
  is not among the sources.  The piecewise Mitchell-Netravali cubic polynomial evaluated
  on \<open>|x|\<close>, with one branch for \<open>|x| < 1\<close>, one for \<open>1 \<le> |x| < 2\<close>, each a cubic in \<open>|x|\<close>
  with the shape parameters \<open>B\<close> and \<open>C\<close>, and zero beyond.
\<close>

definition bicubic_kernel :: "rat \<Rightarrow> rat \<Rightarrow> rat \<Rightarrow> rat" where
  "bicubic_kernel x B C =
     (let a = \<bar>x\<bar>
      in if a < 1 then ((12 - 9 * B - 6 * C) * a ^ 3 + (- 18 + 12 * B + 6 * C) * a ^ 2 + (6 - 2 * B)) / 6
         else if a < 2 then ((- B - 6 * C) * a ^ 3 + (6 * B + 30 * C) * a ^ 2
                             + (- 12 * B - 48 * C) * a + (8 * B + 24 * C)) / 6
         else 0)"

text \<open>\<open>img[r, k, c]\<close> on the padded array, and the four reads that make one row of
  \<open>mat_m\<close>: column \<open>k\<close> of the image at the four rows \<open>rs\<close>.\<close>

definition fetch :: "nat list list list \<Rightarrow> nat \<Rightarrow> int \<Rightarrow> int \<Rightarrow> error + nat" where
  "fetch img c k r =
     (case np_get img r of Inl e \<Rightarrow> Inl e | Inr row \<Rightarrow>
     (case np_get row k of Inl e \<Rightarrow> Inl e | Inr p \<Rightarrow> np_get p (int c)))"

definition fetch_rows :: "nat list list list \<Rightarrow> nat \<Rightarrow> int list \<Rightarrow> int \<Rightarrow> error + nat list" where
  "fetch_rows img c rs k = for_each (fetch img c k) rs"

text \<open>
  The value computed for \<open>dst[j, i, c]\<close>.  The offsets \<open>x1 .. x4\<close> of the coordinate \<open>x\<close>
  and the four indices \<open>int(x - x1), int(x - x2), int(x + x3), int(x + x4)\<close> are Python
  float expressions, evaluated in binary64 as written; the same expressions are used for
  \<open>y\<close>.
\<close>

definition offsets :: "rat \<Rightarrow> rat list" where
  "offsets x =
     [fsub (fadd 1 x) (of_int \<lfloor>x\<rfloor>), fsub x (of_int \<lfloor>x\<rfloor>),
      fsub (of_int \<lfloor>x\<rfloor> + 1) x, fsub (of_int \<lfloor>x\<rfloor> + 2) x]"

fun indices :: "rat \<Rightarrow> rat list \<Rightarrow> int list" where
  "indices x [x1, x2, x3, x4] =
     [trunc (fsub x x1), trunc (fsub x x2), trunc (fadd x x3), trunc (fadd x x4)]"
| "indices x xs = []"

text \<open>
  \<open>mat_l\<close> holds the weights of the \<open>x\<close> offsets, \<open>mat_r\<close> those of the \<open>y\<close> offsets, and row
  \<open>a\<close> of \<open>mat_m\<close> the samples of image column \<open>int(x \<plusminus> x\<^sub>a)\<close> at the four rows.  The two
  matrix products \<open>mat_l \<cdot> mat_m \<cdot> mat_r\<close> are taken exactly (\<open>dot\<close> is the product of a row
  and a column).  The value is stored into \<open>dst\<close>, which has three channels.
\<close>

fun dot :: "rat list \<Rightarrow> rat list \<Rightarrow> rat" where
  "dot (x # xs) (y # ys) = x * y + dot xs ys"
| "dot xs ys = 0"

definition weighted_sum :: "(rat \<Rightarrow> rat) \<Rightarrow> nat list list list \<Rightarrow> nat \<Rightarrow> rat \<Rightarrow> rat \<Rightarrow> error + rat" where
  "weighted_sum weight img c x y =
     (case for_each (fetch_rows img c (indices y (offsets y))) (indices x (offsets x)) of
        Inl e \<Rightarrow> Inl e
      | Inr mat_m \<Rightarrow>
          if 3 \<le> c then Inl IndexError
          else Inr (dot (map (dot (map weight (offsets x))) (transpose (map (map of_nat) mat_m)))
                        (map weight (offsets y))))"

text \<open>\<open>x, y = i * h_x + 2, j * h_y + 2\<close>\<close>

definition tap_value :: "(rat \<Rightarrow> rat) \<Rightarrow> nat list list list \<Rightarrow> rat \<Rightarrow> rat \<Rightarrow> nat \<Rightarrow> nat \<Rightarrow> nat \<Rightarrow> error + rat" where
  "tap_value weight img h_x h_y c j i =
     weighted_sum weight img c (fadd (fmul (of_nat i) h_x) 2) (fadd (fmul (of_nat j) h_y) 2)"

text \<open>The loop over the columns \<open>i\<close> of row \<open>j\<close>, and the loop over the rows of channel \<open>c\<close>.\<close>

definition tap_row :: "(rat \<Rightarrow> rat) \<Rightarrow> nat list list list \<Rightarrow> rat \<Rightarrow> rat \<Rightarrow> int \<Rightarrow> nat \<Rightarrow> nat \<Rightarrow> error + rat list" where
  "tap_row weight img h_x h_y width c j = for_each (tap_value weight img h_x h_y c j) [0..<nat width]"

definition tap_plane :: "(rat \<Rightarrow> rat) \<Rightarrow> nat list list list \<Rightarrow> rat \<Rightarrow> rat \<Rightarrow> int \<Rightarrow> int \<Rightarrow> nat \<Rightarrow> error + rat list list" where
  "tap_plane weight img h_x h_y height width c = for_each (tap_row weight img h_x h_y width c) [0..<nat height]"

text \<open>
  The body shared by \<open>mitchell\<close> and \<open>lanczos\<close>, which differ in the weight function only.
  \<open>np.zeros((dH, dW, 3))\<close> raises on a negative dimension.  The loops run over the
  channels of the source, then the rows, then the columns of the target; the channels of
  \<open>dst\<close> that no loop writes stay zero.  The result is \<open>dst.astype(np.uint8)\<close>.
\<close>

definition four_tap_resize :: "(rat \<Rightarrow> rat) \<Rightarrow> int \<Rightarrow> int \<Rightarrow> singleton \<Rightarrow> error + singleton" where
  "four_tap_resize weight height width st =
     (let img = px (img_array st);
          (H, W, C) = shape3 img;
          x_ratio = (if 1 < width then fdiv (of_int (int W - 1)) (of_int (width - 1)) else 0);
          y_ratio = (if 1 < height then fdiv (of_int (int H - 1)) (of_int (height - 1)) else 0);
          img = padding img
      in if height < 0 \<or> width < 0 then Inl ValueError
         else case for_each (tap_plane weight img x_ratio y_ratio height width) [0..<C] of
              Inl e \<Rightarrow> Inl e
            | Inr dst \<Rightarrow>
                Inr (st\<lparr>img_array :=
                  \<lparr>dtype = UInt8,
                   px = map (\<lambda>j. map (\<lambda>i. map (\<lambda>c. if c < C then astype_uint8 (dst ! c ! j ! i) else 0) [0..<3])
                                   [0..<nat width]) [0..<nat height]\<rparr>\<rparr>))"

definition mitchell :: "int \<Rightarrow> int \<Rightarrow> rat \<Rightarrow> rat \<Rightarrow> singleton \<Rightarrow> error + singleton" where
  "mitchell height width B_m C_m st = four_tap_resize (\<lambda>x. bicubic_kernel x B_m C_m) height width st"

text \<open>\<open>lanczos_filter\<close> of \<open>lib.image_transforms.image_kernels\<close> is not among the sources
  and is a parameter here.\<close>

definition lanczos :: "(rat \<Rightarrow> rat) \<Rightarrow> int \<Rightarrow> int \<Rightarrow> singleton \<Rightarrow> error + singleton" where
  "lanczos lanczos_filter height width st = four_tap_resize lanczos_filter height width st"

section \<open>Contrast correction\<close>

text \<open>
  \<open>np.percentile(a, q)\<close> with the default linear interpolation: the value at position
  \<open>q / 100 * (n - 1)\<close> of the sorted array, interpolated between the two neighbouring
  entries; a rank outside \<open>[0, 100]\<close> raises.  The interpolation is taken exactly.
\<close>

definition percentile :: "nat list \<Rightarrow> rat \<Rightarrow> error + rat" where
  "percentile a q =
     (if q < 0 \<or> 100 < q then Inl ValueError
      else if a = [] then Inl IndexError
      else let s = sort a;
               pos = q / 100 * of_nat (length a - 1);
               lo = nat \<lfloor>pos\<rfloor>;
               hi = min (lo + 1) (length a - 1);
               t = pos - of_nat lo
           in Inr (of_nat (s ! lo) + (of_nat (s ! hi) - of_nat (s ! lo)) * t))"

text \<open>The two percentile ranks: \<open>int(ignore_range * 100), int((1 - ignore_range) * 100)\<close>.\<close>

definition percentile_ranks :: "rat \<Rightarrow> int \<times> int" where
  "percentile_ranks ignore_range = (trunc (fmul ignore_range 100), trunc (fmul (fsub 1 ignore_range) 100))"

text \<open>
  The value \<open>formula\<close> returns is a \<open>uint8\<close> scalar in its first and third branch and a
  \<open>float64\<close> in the second, where the division is numpy's.  The product is an \<open>int64\<close>: the
  bucket count reaches \<open>formula\<close> as a Python integer.
\<close>

datatype np_value = U8 nat | F64 np_float

fun np_add :: "nat \<Rightarrow> np_float \<Rightarrow> np_float" where
  "np_add a (Fin x) = Fin (fadd (of_nat a) x)"
| "np_add a PInf = PInf"
| "np_add a NInf = NInf"
| "np_add a NaN = NaN"

definition formula :: "nat \<Rightarrow> nat \<Rightarrow> nat \<Rightarrow> nat \<Rightarrow> nat \<Rightarrow> np_value" where
  "formula a_min a_max a_low a_high pixel =
     (if pixel < a_low then U8 a_min
      else if a_low \<le> pixel \<and> pixel \<le> a_high then
        F64 (np_add a_min (np_true_divide ((int pixel - int a_low) * (int a_max - int a_min))
                                           (int a_high - int a_low)))
      else U8 a_max)"

text \<open>
  \<open>np.vectorize(formula)(hist).astype(np.uint8)\<close>.  \<open>np.vectorize\<close> takes the type of its
  output from the value of \<open>formula\<close> at the first bucket.  For a \<open>uint8\<close> output every
  returned object is converted with \<open>int\<close>, which raises on NaN and on an infinity; for
  a \<open>float64\<close> output the array is cast by \<open>astype\<close>.
\<close>

fun object_to_uint8 :: "np_value \<Rightarrow> error + nat" where
  "object_to_uint8 (U8 v) = Inr v"
| "object_to_uint8 (F64 (Fin x)) = Inr (astype_uint8 x)"
| "object_to_uint8 (F64 NaN) = Inl ValueError"
| "object_to_uint8 (F64 PInf) = Inl OverflowError"
| "object_to_uint8 (F64 NInf) = Inl OverflowError"

fun float64_to_uint8 :: "np_value \<Rightarrow> nat" where
  "float64_to_uint8 (U8 v) = v"
| "float64_to_uint8 (F64 x) = np_astype_uint8 x"

definition vectorize :: "(nat \<Rightarrow> np_value) \<Rightarrow> nat list \<Rightarrow> error + nat list" where
  "vectorize f hist =
     (case hist of
        [] \<Rightarrow> Inl ValueError
      | first # _ \<Rightarrow>
          (case f first of
             U8 _ \<Rightarrow> for_each (\<lambda>pixel. object_to_uint8 (f pixel)) hist
           | F64 _ \<Rightarrow> Inr (map (\<lambda>pixel. float64_to_uint8 (f pixel)) hist)))"

text \<open>The body of \<open>if ignore_range:\<close>, on the histogram \<open>hist\<close>.\<close>

definition percentile_clip :: "nat list \<Rightarrow> rat \<Rightarrow> error + nat list" where
  "percentile_clip hist ignore_range =
     (let (persentile_min, persentile_max) = percentile_ranks ignore_range
      in case percentile hist (of_int persentile_min) of Inl e \<Rightarrow> Inl e | Inr q_low \<Rightarrow>
        (case percentile hist (of_int persentile_max) of Inl e \<Rightarrow> Inl e | Inr q_high \<Rightarrow>
           (let a_min = Min (set hist); a_max = Max (set hist);
                above = filter (\<lambda>h. q_low \<le> of_nat h) hist;
                below = filter (\<lambda>h. of_nat h \<le> q_high) hist
            in if above = [] \<or> below = [] then Inl ValueError
               else vectorize (formula a_min a_max (Min (set above)) (Max (set below))) hist)))"

text \<open>
  \<open>auto_contrast_correction\<close>.  The histogram is cast to \<open>uint8\<close> first, which keeps each
  count modulo 256.  \<open>None\<close> and zero are false in \<open>if ignore_range:\<close>.
\<close>

definition auto_contrast_correction :: "plane \<Rightarrow> rat option \<Rightarrow> error + nat list" where
  "auto_contrast_correction img ignore_range =
     (let hist = map (\<lambda>count. count mod 256) (compute_hist_for_channel img)
      in case ignore_range of
           None \<Rightarrow> Inr hist
         | Some r \<Rightarrow> if r = 0 then Inr hist else percentile_clip hist r)"

fun cumsum_from :: "nat \<Rightarrow> nat list \<Rightarrow> nat list" where
  "cumsum_from acc [] = []"
| "cumsum_from acc (x # xs) = (acc + x) # cumsum_from (acc + x) xs"

definition cumsum :: "nat list \<Rightarrow> nat list" where
  "cumsum xs = cumsum_from 0 xs"

text \<open>
  \<open>image_channel_from_hist\<close>: the cumulative sum rescaled to \<open>[0, 255]\<close> by an array
  division, cast to \<open>uint8\<close> and used as the lookup table of the channel.
\<close>

definition rescale :: "nat \<Rightarrow> nat \<Rightarrow> nat \<Rightarrow> nat" where
  "rescale cs_min cs_max c =
     np_astype_uint8 (np_true_divide ((int c - int cs_min) * 255) (int cs_max - int cs_min))"

definition tone_curve :: "nat list \<Rightarrow> error + nat list" where
  "tone_curve hist =
     (let cs = cumsum hist
      in if cs = [] then Inl ValueError
         else Inr (map (rescale (Min (set cs)) (Max (set cs))) cs))"

definition lookup :: "nat list \<Rightarrow> nat \<Rightarrow> error + nat" where
  "lookup cs s = np_get cs (int s)"

definition image_channel_from_hist :: "nat list \<Rightarrow> plane \<Rightarrow> error + plane" where
  "image_channel_from_hist hist img_channel =
     (case tone_curve hist of
        Inl e \<Rightarrow> Inl e
      | Inr cs \<Rightarrow> for_each (for_each (lookup cs)) img_channel)"

text \<open>The body of the channel loop of \<open>apply_contrast_correction\<close>, on the plane of one
  channel.\<close>

definition correct_channel :: "plane \<Rightarrow> rat option \<Rightarrow> error + plane" where
  "correct_channel img_c ignore_range =
     (case auto_contrast_correction img_c ignore_range of
        Inl e \<Rightarrow> Inl e
      | Inr hist_corrected \<Rightarrow> image_channel_from_hist hist_corrected img_c)"

text \<open>\<open>img_array[:, :, channel]\<close>\<close>

definition channel_plane :: "nat list list list \<Rightarrow> nat \<Rightarrow> error + plane" where
  "channel_plane img channel = for_each (for_each (\<lambda>p. np_get p (int channel))) img"

definition correct_plane :: "nat list list list \<Rightarrow> rat option \<Rightarrow> nat \<Rightarrow> error + plane" where
  "correct_plane img ignore_range channel =
     (case channel_plane img channel of
        Inl e \<Rightarrow> Inl e
      | Inr img_c \<Rightarrow> correct_channel img_c ignore_range)"

text \<open>
  \<open>apply_contrast_correction\<close>: the three channels are corrected one after the other and
  stored into a new \<open>uint8\<close> array of the shape of the image, which then replaces it.
\<close>

definition apply_contrast_correction :: "rat option \<Rightarrow> singleton \<Rightarrow> error + singleton" where
  "apply_contrast_correction ignore_range st =
     (let img = px (img_array st); (H, W, C) = shape3 img
      in case for_each (correct_plane img ignore_range) [0..<3] of
           Inl e \<Rightarrow> Inl e
         | Inr planes \<Rightarrow>
             Inr (st\<lparr>img_array :=
               \<lparr>dtype = UInt8,
                px = map (\<lambda>x. map (\<lambda>y. map (\<lambda>c. if c < 3 then planes ! c ! x ! y else 0) [0..<C])
                                [0..<W]) [0..<H]\<rparr>\<rparr>))"

section \<open>The percentile clip in the words of the specification\<close>

text \<open>
  The specification words the clip as follows: \<open>qLow\<close> and \<open>qHigh\<close> are the
  \<open>ignoreRange * 100\<close> and \<open>(1 - ignoreRange) * 100\<close> percentiles of the bucket counts,
  \<open>aMin\<close> and \<open>aMax\<close> the smallest and the largest count, \<open>aLow\<close> the smallest count that is
  at least \<open>qLow\<close>, \<open>aHigh\<close> the largest count that is at most \<open>qHigh\<close>; a count below \<open>aLow\<close>
  maps to \<open>aMin\<close>, a count above \<open>aHigh\<close> to \<open>aMax\<close>, and a count in between to
  \<open>aMin + (count - aLow) * (aMax - aMin) / (aHigh - aLow)\<close>.  This is the reading the
  program is compared with, not a part of the program.
\<close>

definition spec_remap :: "nat \<Rightarrow> nat \<Rightarrow> nat \<Rightarrow> nat \<Rightarrow> nat \<Rightarrow> rat" where
  "spec_remap aMin aMax aLow aHigh count =
     (if count < aLow then of_nat aMin
      else if aHigh < count then of_nat aMax
      else of_nat aMin + (of_nat count - of_nat aLow) * (of_nat aMax - of_nat aMin)
                           / (of_nat aHigh - of_nat aLow))"

definition spec_percentile_clip :: "nat list \<Rightarrow> rat \<Rightarrow> error + rat list" where
  "spec_percentile_clip h ignoreRange =
     (case percentile h (ignoreRange * 100) of Inl e \<Rightarrow> Inl e | Inr qLow \<Rightarrow>
     (case percentile h ((1 - ignoreRange) * 100) of Inl e \<Rightarrow> Inl e | Inr qHigh \<Rightarrow>
        Inr (map (spec_remap (Min (set h)) (Max (set h))
                    (Min (set (filter (\<lambda>c. qLow \<le> of_nat c) h)))
                    (Max (set (filter (\<lambda>c. of_nat c \<le> qHigh) h)))) h)))"
section \<open>Properties of the histogram\<close>

lemma hist_loop_all:
  assumes "\<forall>(x, y) \<in> set ps. img ! x ! y < length hist"
  shows "length (hist_loop img ps hist) = length hist
       \<and> sum_list (hist_loop img ps hist) = sum_list hist + length ps
       \<and> (\<forall>v < length hist. hist_loop img ps hist ! v
              = hist ! v + count_list (map (\<lambda>(x, y). img ! x ! y) ps) v)"
  using assms
proof (induction ps arbitrary: hist)
  case Nil
  then show ?case by simp
next
  case (Cons p ps)
  obtain x y where p: "p = (x, y)" by (cases p)
  let ?i = "img ! x ! y"
  let ?h1 = "hist[?i := hist ! ?i + 1]"
  from Cons.prems p have i: "?i < length hist" by simp
  have step: "hist_loop img (p # ps) hist = hist_loop img ps ?h1"
    using i p by (simp add: hist_incr_def)
  have "\<forall>(x, y) \<in> set ps. img ! x ! y < length ?h1"
    using Cons.prems by fastforce
  from Cons.IH [OF this] have
    h: "length (hist_loop img ps ?h1) = length hist"
       "sum_list (hist_loop img ps ?h1) = sum_list ?h1 + length ps"
       "\<forall>v < length hist. hist_loop img ps ?h1 ! v
          = ?h1 ! v + count_list (map (\<lambda>(x, y). img ! x ! y) ps) v"
    by simp_all
  have s: "sum_list ?h1 = sum_list hist + 1"
    using i by (simp add: sum_list_update)
  have "sum_list (hist_loop img ps ?h1) = sum_list hist + length (p # ps)"
    using h(2) s by simp
  moreover have "\<forall>v < length hist. hist_loop img ps ?h1 ! v
      = hist ! v + count_list (map (\<lambda>(x, y). img ! x ! y) (p # ps)) v"
    using h(3) i p by (auto simp: nth_list_update)
  ultimately show ?case using h(1) step by simp
qed

lemma hist_loop_ok:
  assumes "\<forall>(x, y) \<in> set ps. img ! x ! y < length hist"
  shows "length (hist_loop img ps hist) = length hist"
    and "sum_list (hist_loop img ps hist) = sum_list hist + length ps"
    and "\<forall>v < length hist. hist_loop img ps hist ! v
           = hist ! v + count_list (map (\<lambda>(x, y). img ! x ! y) ps) v"
  using hist_loop_all [OF assms] by simp_all

lemma concat_by_index:
  assumes "\<forall>row \<in> set img. length row = w"
  shows "map (\<lambda>(x, y). img ! x ! y) (List.product [0..<length img] [0..<w]) = concat img"
  using assms
proof (induction img rule: rev_induct)
  case Nil
  then show ?case by simp
next
  case (snoc row img)
  have a: "map (\<lambda>(x, y). (img @ [row]) ! x ! y) (List.product [0..<length img] [0..<w])
         = map (\<lambda>(x, y). img ! x ! y) (List.product [0..<length img] [0..<w])"
    by (rule map_cong) (auto simp: nth_append)
  have b: "map (\<lambda>(x, y). (img @ [row]) ! x ! y) (map (Pair (length img)) [0..<w]) = row"
    using snoc.prems by (auto simp: comp_def intro: nth_equalityI)
  have "List.product [0..<length (img @ [row])] [0..<w]
      = List.product [0..<length img] [0..<w] @ map (Pair (length img)) [0..<w]"
    by (simp add: product_concat_map)
  then show ?case using a b snoc by simp
qed


lemma compute_hist_eq:
  assumes "rect img" and "\<forall>row \<in> set img. \<forall>s \<in> set row. s < 256"
  shows "compute_hist_for_channel img = map (count_list (concat img)) [0..<256]"
    and "sum_list (compute_hist_for_channel img) = fst (shape2 img) * snd (shape2 img)"
proof -
  let ?w = "snd (shape2 img)"
  let ?ps = "List.product [0..<length img] [0..<?w]"
  let ?h = "hist_loop img ?ps (replicate 256 0)"
  have rows: "\<forall>row \<in> set img. length row = ?w"
    using assms(1) by (simp add: rect_def list_all_iff)
  have ok: "\<forall>(x, y) \<in> set ?ps. img ! x ! y < length (replicate 256 (0::nat))"
    using assms(2) rows by (auto simp: all_set_conv_all_nth)
  have c: "compute_hist_for_channel img = ?h"
    by (simp add: compute_hist_for_channel_def shape2_def)
  have len: "length ?h = 256"
    using hist_loop_ok(1) [OF ok] by simp
  have nth: "\<forall>v < 256. ?h ! v = count_list (concat img) v"
    using hist_loop_ok(3) [OF ok] concat_by_index [OF rows] by simp
  have "?h = map (count_list (concat img)) [0..<256]"
    using len nth by (intro nth_equalityI) auto
  then show "compute_hist_for_channel img = map (count_list (concat img)) [0..<256]"
    using c by simp
  show "sum_list (compute_hist_for_channel img) = fst (shape2 img) * snd (shape2 img)"
    using hist_loop_ok(2) [OF ok] c by (simp add: shape2_def sum_list_replicate)
qed

lemma auto_contrast_zero:
  assumes "rect img" and "\<forall>row \<in> set img. \<forall>s \<in> set row. s < 256"
    and "ignore_range = None \<or> ignore_range = Some 0"
  shows "auto_contrast_correction img ignore_range
       = Inr (map (\<lambda>v. count_list (concat img) v mod 256) [0..<256])"
  using assms(3) compute_hist_eq(1) [OF assms(1,2)]
  by (auto simp: auto_contrast_correction_def Let_def comp_def)


lemma count_list_repl: "count_list (replicate n x) v = (if x = v then n else 0)"
  by (induction n) auto

lemma cumsum_from_replicate_zero: "cumsum_from acc (replicate n 0) = replicate n acc"
  by (induction n) simp_all

lemma for_each_replicate:
  assumes "f x = Inr y"
  shows "for_each f (replicate n x) = Inr (replicate n y)"
  using assms by (induction n) simp_all

lemma tone_curve_zero: "tone_curve (replicate 256 0) = Inr (replicate 256 0)"
proof -
  have "cumsum (replicate 256 0) = replicate 256 0"
    by (simp add: cumsum_def cumsum_from_replicate_zero)
  then show ?thesis
    by (simp add: tone_curve_def rescale_def np_true_divide_def map_replicate_const)
qed


lemma two_level_hist:
  "map (\<lambda>v. count_list (concat [replicate 256 0, replicate 256 (255::nat)]) v mod 256) [0..<256]
     = replicate 256 0"
proof -
  have "map (\<lambda>v. count_list (concat [replicate 256 0, replicate 256 (255::nat)]) v mod 256) [0..<256]
      = map (\<lambda>v. 0) [0..<256]"
    by (rule map_cong) (auto simp: count_list_repl)
  then show ?thesis
    by (simp add: map_replicate_const)
qed

text \<open>
  C7 (counterexample).  The claim is stated for every channel plane of a grid, and a grid
  may hold 16-bit samples.  The histogram has 256 buckets whatever the sample type: on
  the one-sample plane holding the value 256 no bucket is incremented, and the counts sum
  to 0, not to the one sample of the plane.
\<close>

theorem compute_hist_16_bit_plane:
  "compute_hist_for_channel [[256]] = replicate 256 0
   \<and> sum_list (compute_hist_for_channel [[256]]) \<noteq> fst (shape2 [[256::nat]]) * snd (shape2 [[256::nat]])"
  by (simp add: compute_hist_for_channel_def shape2_def hist_incr_def sum_list_replicate)

text \<open>
  C7 (amended).  For a channel plane of 8-bit samples (a rectangular array whose samples
  are all below 256), the histogram computation returns 256 bucket counts, their sum is
  the number of samples (height times width of the plane), and bucket \<open>v\<close> holds the
  number of samples equal to \<open>v\<close>.
\<close>

theorem compute_hist_counts:
  assumes "rect img" and "\<forall>row \<in> set img. \<forall>s \<in> set row. s < 256"
  shows "length (compute_hist_for_channel img) = 256
       \<and> sum_list (compute_hist_for_channel img) = fst (shape2 img) * snd (shape2 img)
       \<and> (\<forall>v < 256. compute_hist_for_channel img ! v = count_list (concat img) v)"
  using compute_hist_eq [OF assms] by simp

theorem compute_hist_counts_witness:
  "rect [[0, 255], [255, 7::nat]] \<and> list_all (list_all (\<lambda>s. s < 256)) [[0, 255], [255, 7::nat]]
   \<and> length (compute_hist_for_channel [[0, 255], [255, 7]]) = 256
   \<and> sum_list (compute_hist_for_channel [[0, 255], [255, 7]]) = 4
   \<and> compute_hist_for_channel [[0, 255], [255, 7]] ! 255 = 2
   \<and> compute_hist_for_channel [[0, 255], [255, 7]] ! 7 = 1
   \<and> compute_hist_for_channel [[0, 255], [255, 7]] ! 8 = 0"
proof -
  have a: "rect [[0, 255], [255, 7::nat]]" by (simp add: rect_def shape2_def)
  have b: "\<forall>row \<in> set [[0, 255], [255, 7::nat]]. \<forall>s \<in> set row. s < 256" by simp
  have c: "list_all (list_all (\<lambda>s. s < 256)) [[0, 255], [255, 7::nat]]" by simp
  have d: "fst (shape2 [[0, 255], [255, 7::nat]]) * snd (shape2 [[0, 255], [255, 7::nat]]) = 4"
    by (simp add: shape2_def)
  show ?thesis using a c d compute_hist_counts [OF a b] by simp
qed



text \<open>
  C8.  With an ignore range of zero the percentile clip is skipped and the tone curve is
  built from the histogram directly.  On the plane of 256 samples of value 0 and 256
  samples of value 255 every 8-bit count is zero, the cumulative sum is constant, its
  rescaling divides zero by zero, and the corrected plane holds 0 where the source holds
  255.
\<close>

theorem equalization_two_levels:
  "correct_channel [replicate 256 0, replicate 256 255] (Some 0)
     = Inr [replicate 256 0, replicate 256 0]"
proof -
  let ?img = "[replicate 256 0, replicate 256 (255::nat)]"
  have r: "rect ?img" by (simp add: rect_def shape2_def)
  have b: "\<forall>row \<in> set ?img. \<forall>s \<in> set row. s < 256" by simp
  have h: "auto_contrast_correction ?img (Some 0) = Inr (replicate 256 0)"
    using auto_contrast_zero [OF r b, of "Some 0"] two_level_hist by simp
  have g0: "lookup (replicate 256 0) 0 = Inr 0"
    by (simp add: lookup_def np_get_def)
  have g255: "lookup (replicate 256 0) 255 = Inr 0"
    by (simp add: lookup_def np_get_def)
  show ?thesis
    using h tone_curve_zero g0 g255
    by (simp add: correct_channel_def image_channel_from_hist_def for_each_replicate)
qed

section \<open>Properties of the resamplers\<close>

lemma np_get_error: "np_get xs i = Inl e \<Longrightarrow> e = IndexError"
  by (cases e) (simp_all add: np_get_def Let_def split: if_splits)

lemma np_get_mem:
  assumes "np_get xs i = Inr x"
  shows "x \<in> set xs"
proof -
  let ?k = "if i < 0 then int (length xs) + i else i"
  from assms have k: "0 \<le> ?k" "?k < int (length xs)" and x: "x = xs ! nat ?k"
    by (simp_all add: np_get_def Let_def split: if_splits)
  from k have "nat ?k < length xs" by linarith
  then show ?thesis using x nth_mem by blast
qed

lemma for_each_length: "for_each f xs = Inr ys \<Longrightarrow> length ys = length xs"
  by (induction xs arbitrary: ys) (auto split: sum.splits)


lemma for_each_results:
  "for_each f xs = Inr ys \<Longrightarrow> y \<in> set ys \<Longrightarrow> \<exists>x \<in> set xs. f x = Inr y"
  by (induction xs arbitrary: ys) (auto split: sum.splits)

lemma for_each_error:
  assumes "\<And>x e'. x \<in> set xs \<Longrightarrow> f x = Inl e' \<Longrightarrow> e' = e"
    and "x \<in> set xs" and "f x = Inl e"
  shows "for_each f xs = Inl e"
  using assms
proof (induction xs)
  case Nil
  then show ?case by simp
next
  case (Cons a xs)
  show ?case
  proof (cases "f a")
    case (Inl e')
    have "a \<in> set (a # xs)" by simp
    from Cons.prems(1) [OF this Inl] have "e' = e" .
    then show ?thesis using Inl by simp
  next
    case (Inr y)
    then have "x \<noteq> a" using Cons.prems(3) by auto
    then have m: "x \<in> set xs" using Cons.prems(2) by simp
    have "for_each f xs = Inl e"
    proof (rule Cons.IH [OF _ m Cons.prems(3)])
      fix x' e'
      assume "x' \<in> set xs" and "f x' = Inl e'"
      then show "e' = e" using Cons.prems(1) [of x' e'] by simp
    qed
    then show ?thesis using Inr by simp
  qed
qed

lemma overshoot: "\<lceil>fmul (fdiv 29 7) 7\<rceil> = 30"
  by code_simp

lemma last_pixel:
  "bilinear_pixel [replicate 30 [0, 0, 0]] (fdiv 29 7) 0 0 7 = Inl IndexError"
  by code_simp

lemma interpolate_length:
  "length as = n \<Longrightarrow> length bs = n \<Longrightarrow> length cs = n \<Longrightarrow> length ds = n
     \<Longrightarrow> length (interpolate x_weight y_weight as bs cs ds) = n"
proof (induction x_weight y_weight as bs cs ds arbitrary: n rule: interpolate.induct)
  case (1 x_weight y_weight a as b bs c cs d ds)
  then show ?case by (cases n) auto
qed auto

lemma bilinear_pixel_error:
  assumes "bilinear_pixel img x_ratio y_ratio i j = Inl e"
    and "\<forall>row \<in> set img. \<forall>p \<in> set row. length p = 3"
  shows "e = IndexError"
proof (rule ccontr)
  assume ne: "e \<noteq> IndexError"
  let ?x = "fmul x_ratio (of_nat j)" and ?y = "fmul y_ratio (of_nat i)"
  from assms(1) ne obtain row_l where r: "np_get img \<lfloor>?y\<rfloor> = Inr row_l"
    by (cases "np_get img \<lfloor>?y\<rfloor>") (auto simp: bilinear_pixel_def Let_def dest: np_get_error)
  from assms(1) ne r obtain a where a: "np_get row_l \<lfloor>?x\<rfloor> = Inr a"
    by (cases "np_get row_l \<lfloor>?x\<rfloor>") (auto simp: bilinear_pixel_def Let_def dest: np_get_error)
  from assms(1) ne r a obtain b where b: "np_get row_l \<lceil>?x\<rceil> = Inr b"
    by (cases "np_get row_l \<lceil>?x\<rceil>") (auto simp: bilinear_pixel_def Let_def dest: np_get_error)
  from assms(1) ne r a b obtain row_h where rh: "np_get img \<lceil>?y\<rceil> = Inr row_h"
    by (cases "np_get img \<lceil>?y\<rceil>") (auto simp: bilinear_pixel_def Let_def dest: np_get_error)
  from assms(1) ne r a b rh obtain c where c: "np_get row_h \<lfloor>?x\<rfloor> = Inr c"
    by (cases "np_get row_h \<lfloor>?x\<rfloor>") (auto simp: bilinear_pixel_def Let_def dest: np_get_error)
  from assms(1) ne r a b rh c obtain d where d: "np_get row_h \<lceil>?x\<rceil> = Inr d"
    by (cases "np_get row_h \<lceil>?x\<rceil>") (auto simp: bilinear_pixel_def Let_def dest: np_get_error)
  have "length a = 3" "length b = 3"
    using assms(2) np_get_mem [OF r] np_get_mem [OF a] np_get_mem [OF b] by blast+
  moreover have "length c = 3" "length d = 3"
    using assms(2) np_get_mem [OF rh] np_get_mem [OF c] np_get_mem [OF d] by blast+
  ultimately have "length (interpolate (fsub ?x (of_int \<lfloor>?x\<rfloor>)) (fsub ?y (of_int \<lfloor>?y\<rfloor>)) a b c d) = 3"
    by (simp add: interpolate_length)
  then show False
    using assms(1) r a b rh c d by (simp add: bilinear_pixel_def Let_def)
qed

lemma bilinear_row_error:
  assumes "\<forall>row \<in> set img. \<forall>p \<in> set row. length p = 3"
    and "j \<in> set js" and "bilinear_pixel img x_ratio y_ratio i j = Inl IndexError"
  shows "for_each (bilinear_pixel img x_ratio y_ratio i) js = Inl IndexError"
proof (rule for_each_error [where f = "bilinear_pixel img x_ratio y_ratio i" and x = j])
  fix x e'
  assume "bilinear_pixel img x_ratio y_ratio i x = Inl e'"
  then show "e' = IndexError" using bilinear_pixel_error assms(1) by blast
next
  show "j \<in> set js" by (rule assms(2))
next
  show "bilinear_pixel img x_ratio y_ratio i j = Inl IndexError" by (rule assms(3))
qed

lemma np_get_ok: "0 \<le> i \<Longrightarrow> i < int (length xs) \<Longrightarrow> np_get xs i = Inr (xs ! nat i)"
  by (simp add: np_get_def)

lemma for_each_ok:
  assumes "\<And>x. x \<in> set xs \<Longrightarrow> \<exists>y. f x = Inr y"
  shows "\<exists>ys. for_each f xs = Inr ys"
  using assms
proof (induction xs)
  case Nil
  then show ?case by simp
next
  case (Cons a xs)
  from Cons.prems [of a] obtain y where y: "f a = Inr y" by auto
  have "\<exists>ys. for_each f xs = Inr ys"
    by (rule Cons.IH) (simp add: Cons.prems)
  then obtain ys where "for_each f xs = Inr ys" by blast
  then show ?case using y by simp
qed

lemma bilinear_pixel_ok:
  assumes three: "\<forall>row \<in> set img. \<forall>p \<in> set row. length p = 3"
    and rows: "\<forall>row \<in> set img. length row = W"
    and y: "0 \<le> \<lfloor>fmul y_ratio (of_nat i)\<rfloor>" "\<lceil>fmul y_ratio (of_nat i)\<rceil> < int (length img)"
    and x: "0 \<le> \<lfloor>fmul x_ratio (of_nat j)\<rfloor>" "\<lceil>fmul x_ratio (of_nat j)\<rceil> < int W"
  shows "\<exists>p. bilinear_pixel img x_ratio y_ratio i j = Inr p"
proof -
  let ?x = "fmul x_ratio (of_nat j)" and ?y = "fmul y_ratio (of_nat i)"
  let ?row_l = "img ! nat \<lfloor>?y\<rfloor>" and ?row_h = "img ! nat \<lceil>?y\<rceil>"
  have yl: "\<lfloor>?y\<rfloor> < int (length img)" and yh: "0 \<le> \<lceil>?y\<rceil>"
    using y by linarith+
  have rl: "np_get img \<lfloor>?y\<rfloor> = Inr ?row_l" and rh: "np_get img \<lceil>?y\<rceil> = Inr ?row_h"
    using y yl yh by (simp_all add: np_get_ok)
  have ml: "?row_l \<in> set img" and mh: "?row_h \<in> set img"
    using np_get_mem [OF rl] np_get_mem [OF rh] by simp_all
  then have wl: "length ?row_l = W" and wh: "length ?row_h = W"
    using rows by simp_all
  have xl: "\<lfloor>?x\<rfloor> < int W" and xh: "0 \<le> \<lceil>?x\<rceil>"
    using x by linarith+
  have a: "np_get ?row_l \<lfloor>?x\<rfloor> = Inr (?row_l ! nat \<lfloor>?x\<rfloor>)"
    and b: "np_get ?row_l \<lceil>?x\<rceil> = Inr (?row_l ! nat \<lceil>?x\<rceil>)"
    and c: "np_get ?row_h \<lfloor>?x\<rfloor> = Inr (?row_h ! nat \<lfloor>?x\<rfloor>)"
    and d: "np_get ?row_h \<lceil>?x\<rceil> = Inr (?row_h ! nat \<lceil>?x\<rceil>)"
    using x xl xh wl wh by (simp_all add: np_get_ok)
  have "length (?row_l ! nat \<lfloor>?x\<rfloor>) = 3" "length (?row_l ! nat \<lceil>?x\<rceil>) = 3"
    "length (?row_h ! nat \<lfloor>?x\<rfloor>) = 3" "length (?row_h ! nat \<lceil>?x\<rceil>) = 3"
    using three ml mh np_get_mem [OF a] np_get_mem [OF b] np_get_mem [OF c] np_get_mem [OF d]
    by blast+
  then have "length (interpolate (fsub ?x (of_int \<lfloor>?x\<rfloor>)) (fsub ?y (of_int \<lfloor>?y\<rfloor>))
      (?row_l ! nat \<lfloor>?x\<rfloor>) (?row_l ! nat \<lceil>?x\<rceil>)
      (?row_h ! nat \<lfloor>?x\<rfloor>) (?row_h ! nat \<lceil>?x\<rceil>)) = 3"
    by (simp add: interpolate_length)
  then show ?thesis
    using rl rh a b c d by (simp add: bilinear_pixel_def Let_def)
qed

lemma zero_coordinate: "fmul 0 0 = 0"
  by code_simp

lemma in_range_8:
  "list_all (\<lambda>j. 0 \<le> \<lfloor>fmul (fdiv 29 7) (of_nat j)\<rfloor> \<and> \<lceil>fmul (fdiv 29 7) (of_nat j)\<rceil> < 30) [0..<7]"
  by code_simp

lemma in_range_7:
  "list_all (\<lambda>j. 0 \<le> \<lfloor>fmul (fdiv 29 6) (of_nat j)\<rfloor> \<and> \<lceil>fmul (fdiv 29 6) (of_nat j)\<rceil> < 30) [0..<7]"
  by code_simp

lemma black_row_ok:
  assumes "list_all (\<lambda>j. 0 \<le> \<lfloor>fmul r (of_nat j)\<rfloor> \<and> \<lceil>fmul r (of_nat j)\<rceil> < 30) js"
  shows "\<exists>row. for_each (bilinear_pixel [replicate 30 [0, 0, 0]] r 0 0) js = Inr row"
proof (rule for_each_ok)
  fix j
  assume "j \<in> set js"
  then have j: "0 \<le> \<lfloor>fmul r (of_nat j)\<rfloor>" "\<lceil>fmul r (of_nat j)\<rceil> < int 30"
    using assms by (simp_all add: list_all_iff)
  have three: "\<forall>row \<in> set [replicate 30 [0, 0, 0 :: nat]]. \<forall>p \<in> set row. length p = 3"
    by simp
  have rows: "\<forall>row \<in> set [replicate 30 [0, 0, 0 :: nat]]. length row = 30"
    by simp
  have y: "0 \<le> \<lfloor>fmul 0 (of_nat 0)\<rfloor>"
    "\<lceil>fmul 0 (of_nat 0)\<rceil> < int (length [replicate 30 [0, 0, 0 :: nat]])"
    using zero_coordinate by simp_all
  show "\<exists>p. bilinear_pixel [replicate 30 [0, 0, 0]] r 0 0 j = Inr p"
    by (rule bilinear_pixel_ok [OF three rows y j])
qed

text \<open>
  C9.  Bilinear resize does not clamp the rounded-up neighbour index.  A black RGB image of
  one row and 30 columns is resized to one row and 8 columns.  The scale factor is the
  binary64 quotient \<open>29 / 7\<close>; for the target columns 0 to 6 all four neighbours are read
  and the pixel is computed.  For the last column the binary64 product \<open>(29 / 7) * 7\<close> is
  above 29 (it is 29 in exact arithmetic), its floor 29 is a valid column and its ceiling
  is 30, the width of the source: the read of the neighbour at the ceiling is out of
  bounds, the pixel raises IndexError and so does the resize.  The same image resized to
  7 columns is computed without error.
\<close>

theorem bilinear_reads_out_of_bounds:
  "shape3 [replicate 30 [0, 0, 0 :: nat]] = (1, 30, 3)
   \<and> (\<exists>row. for_each (bilinear_pixel [replicate 30 [0, 0, 0]]
                      (fdiv (of_int (int 30 - 1)) (of_int (8 - 1))) 0 0) [0..<7] = Inr row)
   \<and> \<lceil>(29 / 7 :: rat) * 7\<rceil> = 29
   \<and> \<lfloor>fmul (fdiv (of_int (int 30 - 1)) (of_int (8 - 1))) (of_nat 7)\<rfloor> = 29
   \<and> \<lceil>fmul (fdiv (of_int (int 30 - 1)) (of_int (8 - 1))) (of_nat 7)\<rceil> = 30
   \<and> np_get (replicate 30 [0, 0, 0 :: nat]) 29 = Inr [0, 0, 0]
   \<and> np_get (replicate 30 [0, 0, 0 :: nat]) 30 = Inl IndexError
   \<and> bilinear_pixel [replicate 30 [0, 0, 0]] (fdiv (of_int (int 30 - 1)) (of_int (8 - 1))) 0 0 7
        = Inl IndexError
   \<and> bilinear_resize 1 8 \<lparr>img_array = \<lparr>dtype = UInt8, px = [replicate 30 [0, 0, 0]]\<rparr>\<rparr>
        = Inl IndexError
   \<and> (\<exists>st'. bilinear_resize 1 7 \<lparr>img_array = \<lparr>dtype = UInt8, px = [replicate 30 [0, 0, 0]]\<rparr>\<rparr>
        = Inr st')"
proof -
  let ?img = "[replicate 30 [0, 0, 0 :: nat]]"
  let ?st = "\<lparr>img_array = \<lparr>dtype = UInt8, px = ?img\<rparr>\<rparr>"
  have sh: "shape3 ?img = (1, 30, 3)"
    by (simp add: shape3_def)
  have three: "\<forall>row \<in> set ?img. \<forall>p \<in> set row. length p = 3"
    by simp
  have first: "\<exists>row. for_each (bilinear_pixel ?img (fdiv 29 7) 0 0) [0..<7] = Inr row"
    by (rule black_row_ok [OF in_range_8])
  have "7 \<in> set [0..<8::nat]" by simp
  from bilinear_row_error [OF three this last_pixel]
  have "for_each (bilinear_pixel ?img (fdiv 29 7) 0 0) [0..<8] = Inl IndexError" .
  then have res: "bilinear_resize 1 8 ?st = Inl IndexError"
    using sh by (simp add: bilinear_resize_def bilinear_row_def)
  obtain row where "for_each (bilinear_pixel ?img (fdiv 29 6) 0 0) [0..<7] = Inr row"
    using black_row_ok [OF in_range_7] by blast
  then have seven: "\<exists>st'. bilinear_resize 1 7 ?st = Inr st'"
    using sh by (simp add: bilinear_resize_def bilinear_row_def)
  have fl: "\<lfloor>fmul (fdiv 29 7) 7\<rfloor> = 29"
    by code_simp
  have g29: "np_get (replicate 30 [0, 0, 0 :: nat]) 29 = Inr [0, 0, 0]"
    by (simp add: np_get_def)
  have g30: "np_get (replicate 30 [0, 0, 0 :: nat]) 30 = Inl IndexError"
    by (simp add: np_get_def)
  show ?thesis
    using sh first overshoot fl g29 g30 last_pixel res seven by simp
qed

section \<open>Shape of the resized grid\<close>

lemma for_each_map:
  assumes "\<And>x. x \<in> set xs \<Longrightarrow> f x = Inr (g x)"
  shows "for_each f xs = Inr (map g xs)"
  using assms by (induction xs) simp_all

lemma bilinear_pixel_length:
  assumes "bilinear_pixel img x_ratio y_ratio i j = Inr p"
  shows "length p = 3"
  using assms
  by (simp add: bilinear_pixel_def Let_def split: sum.splits if_splits) auto

lemma bilinear_shape:
  assumes "bilinear_resize height width st = Inr st'"
  shows "dtype (img_array st') = UInt8"
    and "length (px (img_array st')) = nat height"
    and "\<forall>row \<in> set (px (img_array st')). length row = nat width \<and> (\<forall>p \<in> set row. length p = 3)"
proof -
  obtain H W C where sh: "shape3 (px (img_array st)) = (H, W, C)"
    by (cases "shape3 (px (img_array st))") auto
  let ?xr = "if 1 < width then fdiv (of_int (int W - 1)) (of_int (width - 1)) else 0"
  let ?yr = "if 1 < height then fdiv (of_int (int H - 1)) (of_int (height - 1)) else 0"
  from assms sh obtain resized where
    r: "for_each (bilinear_row (px (img_array st)) ?xr ?yr width) [0..<nat height] = Inr resized"
    and st': "st' = st\<lparr>img_array := \<lparr>dtype = UInt8, px = resized\<rparr>\<rparr>"
    by (auto simp: bilinear_resize_def Let_def split: if_splits sum.splits)
  show "dtype (img_array st') = UInt8" using st' by simp
  show "length (px (img_array st')) = nat height"
    using for_each_length [OF r] st' by simp
  show "\<forall>row \<in> set (px (img_array st')). length row = nat width \<and> (\<forall>p \<in> set row. length p = 3)"
  proof
    fix row assume "row \<in> set (px (img_array st'))"
    then have "row \<in> set resized" using st' by simp
    from for_each_results [OF r this] obtain i where
      row: "bilinear_row (px (img_array st)) ?xr ?yr width i = Inr row" by blast
    then have fe: "for_each (bilinear_pixel (px (img_array st)) ?xr ?yr i) [0..<nat width] = Inr row"
      by (simp add: bilinear_row_def)
    have "\<forall>p \<in> set row. length p = 3"
    proof
      fix p assume "p \<in> set row"
      from for_each_results [OF fe this] show "length p = 3"
        using bilinear_pixel_length by blast
    qed
    then show "length row = nat width \<and> (\<forall>p \<in> set row. length p = 3)"
      using for_each_length [OF fe] by simp
  qed
qed

lemma four_tap_shape:
  assumes "four_tap_resize weight height width st = Inr st'"
  shows "dtype (img_array st') = UInt8"
    and "length (px (img_array st')) = nat height"
    and "\<forall>row \<in> set (px (img_array st')). length row = nat width \<and> (\<forall>p \<in> set row. length p = 3)"
  using assms
  by (auto simp: four_tap_resize_def Let_def split: if_splits sum.splits prod.splits)

lemma bilinear_one_pixel:
  "bilinear_resize 1 1 \<lparr>img_array = \<lparr>dtype = UInt16, px = [[[300, 2, 3]]]\<rparr>\<rparr>
     = Inr \<lparr>img_array = \<lparr>dtype = UInt8, px = [[[44, 2, 3]]]\<rparr>\<rparr>"
  by code_simp

lemma mitchell_zero_width:
  "mitchell 1 0 0 (1 / 2) \<lparr>img_array = \<lparr>dtype = UInt8, px = [[[10, 20, 30]]]\<rparr>\<rparr>
     = Inr \<lparr>img_array = \<lparr>dtype = UInt8, px = [[]]\<rparr>\<rparr>"
  by code_simp

text \<open>
  C3.  Nearest-neighbour resize with the target size equal to the source size is not the
  identity on a grid that is not square.  The source has one row and two columns (width
  2, height 1), and the target width 2 and height 1 are asked for.  \<open>resize_neighbour\<close>
  takes the first axis of the array, its rows, for the width: the result has two rows of
  one pixel, both the first pixel of the source.
\<close>

theorem resize_neighbour_same_size:
  "resize_neighbour 1 2 \<lparr>img_array = \<lparr>dtype = UInt8, px = [[[10, 20, 30], [40, 50, 60]]]\<rparr>\<rparr>
     = Inr \<lparr>img_array = \<lparr>dtype = UInt8, px = [[[10, 20, 30]], [[10, 20, 30]]]\<rparr>\<rparr>"
  by code_simp

text \<open>
  C2 (counterexample).  The sample depth of the source is not preserved: a grid of 16-bit
  samples resized by \<open>bilinear_resize\<close> to its own size, one pixel, comes back with 8-bit
  samples (and the sample 300 as 44).
\<close>

theorem resize_depth_not_preserved:
  "bilinear_resize 1 1 \<lparr>img_array = \<lparr>dtype = UInt16, px = [[[300, 2, 3]]]\<rparr>\<rparr>
     = Inr \<lparr>img_array = \<lparr>dtype = UInt8, px = [[[44, 2, 3]]]\<rparr>\<rparr>
   \<and> depth (dtype (img_array \<lparr>img_array = \<lparr>dtype = UInt8, px = [[[44, 2, 3]]]\<rparr>\<rparr>))
       \<noteq> depth (dtype (img_array \<lparr>img_array = \<lparr>dtype = UInt16, px = [[[300, 2, 3]]]\<rparr>\<rparr>))"
  using bilinear_one_pixel by simp

text \<open>
  C2 (amended).  For the bilinear, the cubic and the Lanczos resampler, a produced grid has
  exactly \<open>height\<close> rows of \<open>width\<close> pixels, every pixel has three channels and the samples
  are 8-bit, whatever the depth of the source; for a target width and height of at least
  1 its shape is \<open>(height, width, 3)\<close>.
\<close>

theorem resize_result_shape:
  assumes "bilinear_resize height width st = Inr st'
         \<or> mitchell height width B_m C_m st = Inr st'
         \<or> lanczos lanczos_filter height width st = Inr st'"
  shows "dtype (img_array st') = UInt8
       \<and> length (px (img_array st')) = nat height
       \<and> (\<forall>row \<in> set (px (img_array st')). length row = nat width \<and> (\<forall>p \<in> set row. length p = 3))
       \<and> (1 \<le> height \<and> 1 \<le> width \<longrightarrow> shape3 (px (img_array st')) = (nat height, nat width, 3))"
proof -
  let ?a = "px (img_array st')"
  have base: "dtype (img_array st') = UInt8 \<and> length ?a = nat height
       \<and> (\<forall>row \<in> set ?a. length row = nat width \<and> (\<forall>p \<in> set row. length p = 3))"
    using assms bilinear_shape [of height width st st']
      four_tap_shape [of "\<lambda>x. bicubic_kernel x B_m C_m" height width st st']
      four_tap_shape [of lanczos_filter height width st st']
    unfolding mitchell_def lanczos_def by blast
  have "shape3 ?a = (nat height, nat width, 3)" if hw: "1 \<le> height \<and> 1 \<le> width"
  proof -
    from base hw have ne: "?a \<noteq> []" by auto
    then have h: "hd ?a \<in> set ?a" by simp
    with base hw have len: "length (hd ?a) = nat width" and ne2: "hd ?a \<noteq> []" by auto
    then have "hd (hd ?a) \<in> set (hd ?a)" by simp
    with base h have "length (hd (hd ?a)) = 3" by blast
    then show ?thesis using base ne ne2 len by (simp add: shape3_def)
  qed
  then show ?thesis using base by blast
qed

theorem resize_result_shape_witness:
  "bilinear_resize 1 1 \<lparr>img_array = \<lparr>dtype = UInt16, px = [[[300, 2, 3]]]\<rparr>\<rparr>
     = Inr \<lparr>img_array = \<lparr>dtype = UInt8, px = [[[44, 2, 3]]]\<rparr>\<rparr>
   \<and> dtype (img_array \<lparr>img_array = \<lparr>dtype = UInt8, px = [[[44, 2, 3]]]\<rparr>\<rparr>) = UInt8
   \<and> shape3 (px (img_array \<lparr>img_array = \<lparr>dtype = UInt8, px = [[[44, 2, 3]]]\<rparr>\<rparr>)) = (nat 1, nat 1, 3)
   \<and> mitchell 1 0 0 (1 / 2) \<lparr>img_array = \<lparr>dtype = UInt8, px = [[[10, 20, 30]]]\<rparr>\<rparr>
     = Inr \<lparr>img_array = \<lparr>dtype = UInt8, px = [[]]\<rparr>\<rparr>
   \<and> length (px (img_array \<lparr>img_array = \<lparr>dtype = UInt8, px = [[]]\<rparr>\<rparr>)) = nat 1"
proof -
  have "bilinear_resize 1 1 \<lparr>img_array = \<lparr>dtype = UInt16, px = [[[300, 2, 3]]]\<rparr>\<rparr>
          = Inr \<lparr>img_array = \<lparr>dtype = UInt8, px = [[[44, 2, 3]]]\<rparr>\<rparr>
      \<or> mitchell 1 1 0 0 \<lparr>img_array = \<lparr>dtype = UInt16, px = [[[300, 2, 3]]]\<rparr>\<rparr>
          = Inr \<lparr>img_array = \<lparr>dtype = UInt8, px = [[[44, 2, 3]]]\<rparr>\<rparr>
      \<or> lanczos (\<lambda>x. 0) 1 1 \<lparr>img_array = \<lparr>dtype = UInt16, px = [[[300, 2, 3]]]\<rparr>\<rparr>
          = Inr \<lparr>img_array = \<lparr>dtype = UInt8, px = [[[44, 2, 3]]]\<rparr>\<rparr>"
    using bilinear_one_pixel by (rule disjI1)
  from resize_result_shape [OF this]
  have b: "dtype (img_array \<lparr>img_array = \<lparr>dtype = UInt8, px = [[[44, 2, 3]]]\<rparr>\<rparr>) = UInt8
      \<and> shape3 (px (img_array \<lparr>img_array = \<lparr>dtype = UInt8, px = [[[44, 2, 3]]]\<rparr>\<rparr>)) = (nat 1, nat 1, 3)"
    by simp
  have "bilinear_resize 1 0 \<lparr>img_array = \<lparr>dtype = UInt8, px = [[[10, 20, 30]]]\<rparr>\<rparr>
          = Inr \<lparr>img_array = \<lparr>dtype = UInt8, px = [[]]\<rparr>\<rparr>
      \<or> mitchell 1 0 0 (1 / 2) \<lparr>img_array = \<lparr>dtype = UInt8, px = [[[10, 20, 30]]]\<rparr>\<rparr>
          = Inr \<lparr>img_array = \<lparr>dtype = UInt8, px = [[]]\<rparr>\<rparr>
      \<or> lanczos (\<lambda>x. 0) 1 0 \<lparr>img_array = \<lparr>dtype = UInt8, px = [[[10, 20, 30]]]\<rparr>\<rparr>
          = Inr \<lparr>img_array = \<lparr>dtype = UInt8, px = [[]]\<rparr>\<rparr>"
    using mitchell_zero_width by blast
  from resize_result_shape [OF this]
  have m: "length (px (img_array \<lparr>img_array = \<lparr>dtype = UInt8, px = [[]]\<rparr>\<rparr>)) = nat 1"
    by blast
  show ?thesis using bilinear_one_pixel mitchell_zero_width b m by blast
qed

section \<open>Target sizes that are not positive\<close>










section \<open>Degenerate percentile bounds\<close>

lemma formula_degenerate: "formula a_min a_max a a a = F64 NaN"
  by (simp add: formula_def np_true_divide_def)

lemma formula_cases:
  "formula a_min a_max a a pixel
     = (if pixel < a then U8 a_min else if pixel = a then F64 NaN else U8 a_max)"
  by (auto simp: formula_def np_true_divide_def)

lemma formula_crossed:
  assumes "a_high < a_low"
  shows "formula a_min a_max a_low a_high pixel = (if pixel < a_low then U8 a_min else U8 a_max)"
  using assms by (auto simp: formula_def)

lemma vectorize_silent:
  "vectorize (formula a_min a_max a a) (a # rest)
     = Inr (map (\<lambda>pixel. if pixel < a then a_min else if pixel = a then 0 else a_max) (a # rest))"
proof -
  have "float64_to_uint8 (formula a_min a_max a a pixel)
      = (if pixel < a then a_min else if pixel = a then 0 else a_max)" for pixel
    by (simp add: formula_cases)
  then show ?thesis
    by (simp add: vectorize_def formula_degenerate)
qed

lemma vectorize_raises:
  assumes "first \<noteq> a" and "a \<in> set rest"
  shows "vectorize (formula a_min a_max a a) (first # rest) = Inl ValueError"
proof -
  let ?f = "\<lambda>pixel. object_to_uint8 (formula a_min a_max a a pixel)"
  have "for_each ?f (first # rest) = Inl ValueError"
  proof (rule for_each_error [where x = a])
    fix x e'
    assume "?f x = Inl e'"
    then show "e' = ValueError"
      by (simp add: formula_cases split: if_splits)
  next
    show "a \<in> set (first # rest)" using assms(2) by simp
  next
    show "?f a = Inl ValueError" by (simp add: formula_degenerate)
  qed
  moreover have "\<exists>v. formula a_min a_max a a first = U8 v"
    using assms(1) by (simp add: formula_cases)
  ultimately show ?thesis by (auto simp: vectorize_def)
qed


lemma white_hist: "compute_hist_for_channel [[255]] = replicate 255 0 @ [1]"
  by code_simp

lemma white_hist_uint8: "map (\<lambda>count. count mod 256) (replicate 255 0 @ [1::nat]) = replicate 255 0 @ [1]"
  by simp

lemma tenth_ranks: "percentile_ranks (fl (1 / 10)) = (10, 90)"
  by code_simp

lemma tenth_nonzero: "(fl (1 / 10) = 0) = False"
  by code_simp

lemma white_percentiles:
  "percentile (replicate 255 0 @ [1]) 10 = Inr 0"
  "percentile (replicate 255 0 @ [1]) 90 = Inr 0"
  by code_simp+

lemma white_bounds:
  "Min (set (replicate 255 0 @ [1::nat])) = 0"
  "Max (set (replicate 255 0 @ [1::nat])) = 1"
  "filter (\<lambda>h. (0::rat) \<le> of_nat h) (replicate 255 0 @ [1::nat]) = replicate 255 0 @ [1]"
  "filter (\<lambda>h. of_nat h \<le> (0::rat)) (replicate 255 0 @ [1::nat]) = replicate 255 0"
  "Max (set (replicate 255 (0::nat))) = 0"
  "(replicate 255 0 @ [1::nat] = [] \<or> replicate 255 (0::nat) = []) = False"
  by simp_all

lemma white_remap:
  "vectorize (formula 0 1 0 0) (replicate 255 0 @ [1]) = Inr (replicate 255 0 @ [1])"
  by code_simp

lemma white_clip: "percentile_clip (replicate 255 0 @ [1]) (fl (1 / 10)) = Inr (replicate 255 0 @ [1])"
  by (simp only: percentile_clip_def tenth_ranks prod.case of_int_numeral white_percentiles
      sum.case Let_def white_bounds if_False white_remap)

lemma white_corrected:
  "auto_contrast_correction [[255]] (Some (fl (1 / 10))) = Inr (replicate 255 0 @ [1])"
  by (simp only: auto_contrast_correction_def Let_def white_hist white_hist_uint8 option.case
      tenth_nonzero if_False white_clip)

lemma white_curve: "image_channel_from_hist (replicate 255 0 @ [1]) [[255]] = Inr [[255]]"
  by code_simp

text \<open>
  C5 (counterexample).  The case \<open>a_high \<le> a_low\<close> is not guarded.  On the plane of one
  sample of value 255 and the ignore range 0.1, the percentile ranks are 10 and 90, both
  percentiles of the bucket counts are 0, and \<open>a_low = a_high = 0\<close>.  The stretch formula
  is evaluated at the count 0 and divides 0 by 0: numpy returns NaN and raises nothing.
  The clip returns a histogram, in which the NaN buckets are 0, and the channel is
  corrected without any failure.
\<close>

theorem degenerate_bounds_not_guarded:
  "compute_hist_for_channel [[255]] = replicate 255 0 @ [1]
   \<and> percentile_ranks (fl (1 / 10)) = (10, 90)
   \<and> percentile (replicate 255 0 @ [1]) 10 = Inr 0
   \<and> percentile (replicate 255 0 @ [1]) 90 = Inr 0
   \<and> Min (set (filter (\<lambda>h. (0::rat) \<le> of_nat h) (replicate 255 0 @ [1]))) = 0
   \<and> Max (set (filter (\<lambda>h. of_nat h \<le> (0::rat)) (replicate 255 0 @ [1]))) = 0
   \<and> formula 0 1 0 0 0 = F64 NaN
   \<and> auto_contrast_correction [[255]] (Some (fl (1 / 10))) = Inr (replicate 255 0 @ [1])
   \<and> correct_channel [[255]] (Some (fl (1 / 10))) = Inr [[255]]"
proof -
  have "correct_channel [[255]] (Some (fl (1 / 10))) = Inr [[255]]"
    by (simp only: correct_channel_def white_corrected sum.case white_curve)
  then show ?thesis
    using white_hist tenth_ranks white_percentiles white_bounds formula_degenerate white_corrected
    by simp
qed

text \<open>
  C5 (amended).  There is no guard for degenerate bounds.  When \<open>a_high = a_low\<close> the
  formula is evaluated at every bucket whose count equals \<open>a_low\<close>, and its division of zero
  by zero gives NaN.  If the count of the first bucket is \<open>a_low\<close>, the remapped histogram
  is returned with the NaN buckets cast to 0; if the first bucket takes a constant
  branch, the conversion of NaN to an integer raises ValueError.  When \<open>a_high < a_low\<close>
  the division is never evaluated: every count maps to \<open>a_min\<close> or to \<open>a_max\<close>.
\<close>

theorem degenerate_bounds:
  "formula a_min a_max a a a = F64 NaN
   \<and> vectorize (formula a_min a_max a a) (a # rest)
       = Inr (map (\<lambda>pixel. if pixel < a then a_min else if pixel = a then 0 else a_max) (a # rest))
   \<and> (first \<noteq> a \<and> a \<in> set rest \<longrightarrow>
        vectorize (formula a_min a_max a a) (first # rest) = Inl ValueError)
   \<and> (a_high < a_low \<longrightarrow>
        formula a_min a_max a_low a_high pixel = (if pixel < a_low then U8 a_min else U8 a_max))"
  using formula_degenerate vectorize_silent vectorize_raises formula_crossed by blast

theorem degenerate_bounds_witness:
  "formula 0 1 0 0 0 = F64 NaN
   \<and> vectorize (formula 0 1 0 0) [0, 0, 1] = Inr [0, 0, 1]
   \<and> vectorize (formula 0 1 0 0) [1, 0, 0] = Inl ValueError
   \<and> formula 0 5 3 2 4 = U8 5"
proof -
  have a: "(1::nat) \<noteq> 0 \<and> (0::nat) \<in> set [0, 0]" by simp
  have b: "(2::nat) < 3" by simp
  show ?thesis
    using degenerate_bounds [where a_min = 0 and a_max = 1 and a = 0 and rest = "[0, 1]"
        and first = 1 and a_high = 2 and a_low = 3 and pixel = 4]
      degenerate_bounds [where a_min = 0 and a_max = 1 and a = 0 and rest = "[0, 0]"
        and first = 1 and a_high = 2 and a_low = 3 and pixel = 4] a b
      degenerate_bounds [where a_min = 0 and a_max = 5 and a = 0 and rest = "[0, 0]"
        and first = 1 and a_high = 2 and a_low = 3 and pixel = 4]
    by simp
qed

section \<open>The cast of the resampled values\<close>


































section \<open>The percentile clip\<close>


lemma formula_regular:
  assumes "a_low < a_high"
  shows "object_to_uint8 (formula a_min a_max a_low a_high count)
       = Inr (if count < a_low then a_min
              else if count \<le> a_high then
                astype_uint8 (fadd (of_nat a_min)
                  (fdiv (of_int ((int count - int a_low) * (int a_max - int a_min)))
                        (of_int (int a_high - int a_low))))
              else a_max)"
    and "float64_to_uint8 (formula a_min a_max a_low a_high count)
       = (if count < a_low then a_min
          else if count \<le> a_high then
            astype_uint8 (fadd (of_nat a_min)
              (fdiv (of_int ((int count - int a_low) * (int a_max - int a_min)))
                    (of_int (int a_high - int a_low))))
          else a_max)"
  using assms by (auto simp: formula_def np_true_divide_def)

lemma vectorize_regular:
  assumes "a_low < a_high" and "hist \<noteq> []"
  shows "vectorize (formula a_min a_max a_low a_high) hist
       = Inr (map (\<lambda>count. if count < a_low then a_min
              else if count \<le> a_high then
                astype_uint8 (fadd (of_nat a_min)
                  (fdiv (of_int ((int count - int a_low) * (int a_max - int a_min)))
                        (of_int (int a_high - int a_low))))
              else a_max) hist)"
proof -
  obtain first rest where h: "hist = first # rest"
    using assms(2) by (cases hist) auto
  show ?thesis
  proof (cases "formula a_min a_max a_low a_high first")
    case (U8 v)
    have "for_each (\<lambda>pixel. object_to_uint8 (formula a_min a_max a_low a_high pixel)) hist
        = Inr (map (\<lambda>count. if count < a_low then a_min
              else if count \<le> a_high then
                astype_uint8 (fadd (of_nat a_min)
                  (fdiv (of_int ((int count - int a_low) * (int a_max - int a_min)))
                        (of_int (int a_high - int a_low))))
              else a_max) hist)"
      by (rule for_each_map) (rule formula_regular(1) [OF assms(1)])
    then show ?thesis using U8 h by (simp add: vectorize_def)
  next
    case (F64 x)
    then show ?thesis
      using h formula_regular(2) [OF assms(1)] by (simp add: vectorize_def)
  qed
qed


lemma bars_hist: "compute_hist_for_channel [[10, 20, 20, 30, 30, 40, 40]] = replicate 10 0 @ [1] @ replicate 9 0 @ [2] @ replicate 9 0 @ [2] @ replicate 9 0 @ [2] @ replicate 215 0"
  by code_simp

lemma bars_hist_uint8: "map (\<lambda>count. count mod 256) (replicate 10 0 @ [1] @ replicate 9 0 @ [2] @ replicate 9 0 @ [2] @ replicate 9 0 @ [2::nat] @ replicate 215 0) = replicate 10 0 @ [1] @ replicate 9 0 @ [2] @ replicate 9 0 @ [2] @ replicate 9 0 @ [2] @ replicate 215 0"
  by simp

lemma bars_ranks: "percentile_ranks (fl (1 / 200)) = (0, 99)"
  by code_simp

lemma bars_nonzero: "(fl (1 / 200) = 0) = False"
  by code_simp

lemma bars_percentiles:
  "percentile (replicate 10 0 @ [1] @ replicate 9 0 @ [2] @ replicate 9 0 @ [2] @ replicate 9 0 @ [2] @ replicate 215 0) 0 = Inr 0"
  "percentile (replicate 10 0 @ [1] @ replicate 9 0 @ [2] @ replicate 9 0 @ [2] @ replicate 9 0 @ [2] @ replicate 215 0) 99 = Inr (29 / 20)"
  "percentile (replicate 10 0 @ [1] @ replicate 9 0 @ [2] @ replicate 9 0 @ [2] @ replicate 9 0 @ [2] @ replicate 215 0) (fl (1 / 200) * 100) = Inr 0"
  "percentile (replicate 10 0 @ [1] @ replicate 9 0 @ [2] @ replicate 9 0 @ [2] @ replicate 9 0 @ [2] @ replicate 215 0) ((1 - fl (1 / 200)) * 100) = Inr 2"
  by code_simp+

lemma bars_bounds:
  "Min (set (replicate 10 0 @ [1] @ replicate 9 0 @ [2] @ replicate 9 0 @ [2] @ replicate 9 0 @ [2::nat] @ replicate 215 0)) = 0"
  "Max (set (replicate 10 0 @ [1] @ replicate 9 0 @ [2] @ replicate 9 0 @ [2] @ replicate 9 0 @ [2::nat] @ replicate 215 0)) = 2"
  "Min (set (filter (\<lambda>h. (0::rat) \<le> of_nat h) (replicate 10 0 @ [1] @ replicate 9 0 @ [2] @ replicate 9 0 @ [2] @ replicate 9 0 @ [2::nat] @ replicate 215 0))) = 0"
  "Max (set (filter (\<lambda>h. of_nat h \<le> (29 / 20 :: rat)) (replicate 10 0 @ [1] @ replicate 9 0 @ [2] @ replicate 9 0 @ [2] @ replicate 9 0 @ [2::nat] @ replicate 215 0))) = 1"
  "Max (set (filter (\<lambda>h. of_nat h \<le> (2 :: rat)) (replicate 10 0 @ [1] @ replicate 9 0 @ [2] @ replicate 9 0 @ [2] @ replicate 9 0 @ [2::nat] @ replicate 215 0))) = 2"
  "(filter (\<lambda>h. (0::rat) \<le> of_nat h) (replicate 10 0 @ [1] @ replicate 9 0 @ [2] @ replicate 9 0 @ [2] @ replicate 9 0 @ [2::nat] @ replicate 215 0) = []
     \<or> filter (\<lambda>h. of_nat h \<le> (29 / 20 :: rat)) (replicate 10 0 @ [1] @ replicate 9 0 @ [2] @ replicate 9 0 @ [2] @ replicate 9 0 @ [2::nat] @ replicate 215 0) = []) = False"
  by code_simp+

lemma bars_remap:
  "vectorize (formula 0 2 0 1) (replicate 10 0 @ [1] @ replicate 9 0 @ [2] @ replicate 9 0 @ [2] @ replicate 9 0 @ [2] @ replicate 215 0) = Inr (replicate 10 0 @ [2] @ replicate 9 0 @ [2] @ replicate 9 0 @ [2] @ replicate 9 0 @ [2] @ replicate 215 0)"
  by code_simp

lemma bars_spec_remap:
  "map (spec_remap 0 2 0 2) (replicate 10 0 @ [1] @ replicate 9 0 @ [2] @ replicate 9 0 @ [2] @ replicate 9 0 @ [2] @ replicate 215 0) = replicate 10 0 @ [1] @ replicate 9 0 @ [2] @ replicate 9 0 @ [2] @ replicate 9 0 @ [2] @ replicate 215 0"
  by code_simp

lemma bars_clip: "percentile_clip (replicate 10 0 @ [1] @ replicate 9 0 @ [2] @ replicate 9 0 @ [2] @ replicate 9 0 @ [2] @ replicate 215 0) (fl (1 / 200)) = Inr (replicate 10 0 @ [2] @ replicate 9 0 @ [2] @ replicate 9 0 @ [2] @ replicate 9 0 @ [2] @ replicate 215 0)"
  by (simp only: percentile_clip_def bars_ranks prod.case of_int_numeral of_int_0 bars_percentiles
      sum.case Let_def bars_bounds if_False bars_remap)

lemma bars_corrected: "auto_contrast_correction [[10, 20, 20, 30, 30, 40, 40]] (Some (fl (1 / 200))) = Inr (replicate 10 0 @ [2] @ replicate 9 0 @ [2] @ replicate 9 0 @ [2] @ replicate 9 0 @ [2] @ replicate 215 0)"
  by (simp only: auto_contrast_correction_def Let_def bars_hist bars_hist_uint8 option.case
      bars_nonzero if_False bars_clip)

lemma bars_spec: "spec_percentile_clip (replicate 10 0 @ [1] @ replicate 9 0 @ [2] @ replicate 9 0 @ [2] @ replicate 9 0 @ [2] @ replicate 215 0) (fl (1 / 200)) = Inr (replicate 10 0 @ [1] @ replicate 9 0 @ [2] @ replicate 9 0 @ [2] @ replicate 9 0 @ [2] @ replicate 215 0)"
  by (simp only: spec_percentile_clip_def bars_percentiles sum.case bars_bounds bars_spec_remap)

lemma bars_tenth:
  "(replicate 10 0 @ [2] @ replicate 9 0 @ [2] @ replicate 9 0 @ [2] @ replicate 9 0 @ [2::nat] @ replicate 215 0) ! 10 = 2"
  "(replicate 10 0 @ [1] @ replicate 9 0 @ [2] @ replicate 9 0 @ [2] @ replicate 9 0 @ [2::rat] @ replicate 215 0) ! 10 = 1"
  by code_simp+

text \<open>
  C6 (counterexample).  The percentile ranks are not \<open>ignoreRange * 100\<close> and
  \<open>(1 - ignoreRange) * 100\<close>: they are truncated to integers.  With the ignore range 0.005
  the ranks are 0 and 99, not 0.5 and 99.5.  On the plane of seven samples
  10, 20, 20, 30, 30, 40, 40 the bucket counts are 1, 2, 2, 2 and 252 zeros.  Their 99th
  percentile is 1.45, so \<open>a_high\<close> is 1 and the count 1 of bucket 10 is remapped to 2; their
  99.5th percentile is 2, with which \<open>aHigh\<close> is 2 and the clip the specification words
  leaves every count as it is.
\<close>

theorem clip_ranks_truncated:
  "compute_hist_for_channel [[10, 20, 20, 30, 30, 40, 40]] = replicate 10 0 @ [1] @ replicate 9 0 @ [2] @ replicate 9 0 @ [2] @ replicate 9 0 @ [2] @ replicate 215 0
   \<and> percentile_ranks (fl (1 / 200)) = (0, 99)
   \<and> percentile (replicate 10 0 @ [1] @ replicate 9 0 @ [2] @ replicate 9 0 @ [2] @ replicate 9 0 @ [2] @ replicate 215 0) 99 = Inr (29 / 20)
   \<and> percentile (replicate 10 0 @ [1] @ replicate 9 0 @ [2] @ replicate 9 0 @ [2] @ replicate 9 0 @ [2] @ replicate 215 0) ((1 - fl (1 / 200)) * 100) = Inr 2
   \<and> auto_contrast_correction [[10, 20, 20, 30, 30, 40, 40]] (Some (fl (1 / 200))) = Inr (replicate 10 0 @ [2] @ replicate 9 0 @ [2] @ replicate 9 0 @ [2] @ replicate 9 0 @ [2] @ replicate 215 0)
   \<and> spec_percentile_clip (replicate 10 0 @ [1] @ replicate 9 0 @ [2] @ replicate 9 0 @ [2] @ replicate 9 0 @ [2] @ replicate 215 0) (fl (1 / 200)) = Inr (replicate 10 0 @ [1] @ replicate 9 0 @ [2] @ replicate 9 0 @ [2] @ replicate 9 0 @ [2] @ replicate 215 0)
   \<and> (replicate 10 0 @ [2] @ replicate 9 0 @ [2] @ replicate 9 0 @ [2] @ replicate 9 0 @ [2::nat] @ replicate 215 0) ! 10 = 2
   \<and> (replicate 10 0 @ [1] @ replicate 9 0 @ [2] @ replicate 9 0 @ [2] @ replicate 9 0 @ [2::rat] @ replicate 215 0) ! 10 = 1"
  using bars_hist bars_ranks bars_percentiles(2,4) bars_corrected bars_spec bars_tenth
  by (intro conjI)

text \<open>
  C6 (amended).  For a nonzero ignore range the percentile ranks are the integers
  \<open>int(ignore_range * 100)\<close> and \<open>int((1 - ignore_range) * 100)\<close>, the products taken in binary64
  and truncated.  With \<open>q_low\<close> and \<open>q_high\<close> the percentiles of these ranks of the bucket counts
  of the histogram handed to the clip, \<open>a_low\<close> the smallest count that is at least \<open>q_low\<close>
  and \<open>a_high\<close> the largest count that is at most \<open>q_high\<close>, and \<open>a_low < a_high\<close>, every
  count below \<open>a_low\<close> is remapped to the smallest count, every count above \<open>a_high\<close> to the
  largest count, and every count in between to
  \<open>a_min + (count - a_low) * (a_max - a_min) / (a_high - a_low)\<close>, computed in binary64 and
  cast to \<open>uint8\<close>.
\<close>

theorem percentile_clip_remap:
  assumes "percentile_ranks ignore_range = (p_min, p_max)"
    and "percentile hist (of_int p_min) = Inr q_low"
    and "percentile hist (of_int p_max) = Inr q_high"
    and "filter (\<lambda>h. q_low \<le> of_nat h) hist \<noteq> []"
    and "filter (\<lambda>h. of_nat h \<le> q_high) hist \<noteq> []"
    and "a_low = Min {h \<in> set hist. q_low \<le> of_nat h}"
    and "a_high = Max {h \<in> set hist. of_nat h \<le> q_high}"
    and "a_low < a_high"
  shows "p_min = trunc (fmul ignore_range 100) \<and> p_max = trunc (fmul (fsub 1 ignore_range) 100)
       \<and> percentile_clip hist ignore_range
         = Inr (map (\<lambda>count.
             if count < a_low then Min (set hist)
             else if count \<le> a_high then
               astype_uint8 (fadd (of_nat (Min (set hist)))
                 (fdiv (of_int ((int count - int a_low) * (int (Max (set hist)) - int (Min (set hist)))))
                       (of_int (int a_high - int a_low))))
             else Max (set hist)) hist)"
proof -
  have ne: "hist \<noteq> []" using assms(4) by auto
  have lo: "Min (set (filter (\<lambda>h. q_low \<le> of_nat h) hist)) = a_low"
    using assms(6) by simp
  have hi: "Max (set (filter (\<lambda>h. of_nat h \<le> q_high) hist)) = a_high"
    using assms(7) by simp
  have "percentile_clip hist ignore_range
      = vectorize (formula (Min (set hist)) (Max (set hist)) a_low a_high) hist"
    using assms(1-5) lo hi by (simp add: percentile_clip_def Let_def)
  then show ?thesis
    using vectorize_regular [OF assms(8) ne] assms(1) by (simp add: percentile_ranks_def)
qed

theorem percentile_clip_remap_witness:
  "percentile_ranks (fl (1 / 200)) = (0, 99)
   \<and> percentile (replicate 10 0 @ [1] @ replicate 9 0 @ [2] @ replicate 9 0 @ [2] @ replicate 9 0 @ [2::nat] @ replicate 215 0) (of_int 0) = Inr 0
   \<and> percentile (replicate 10 0 @ [1] @ replicate 9 0 @ [2] @ replicate 9 0 @ [2] @ replicate 9 0 @ [2::nat] @ replicate 215 0) (of_int 99) = Inr (29 / 20)
   \<and> (0 :: nat) < 1
   \<and> percentile_clip (replicate 10 0 @ [1] @ replicate 9 0 @ [2] @ replicate 9 0 @ [2] @ replicate 9 0 @ [2::nat] @ replicate 215 0) (fl (1 / 200))
       = Inr (map (\<lambda>count.
             if count < 0 then Min (set (replicate 10 0 @ [1] @ replicate 9 0 @ [2] @ replicate 9 0 @ [2] @ replicate 9 0 @ [2::nat] @ replicate 215 0))
             else if count \<le> 1 then
               astype_uint8 (fadd (of_nat (Min (set (replicate 10 0 @ [1] @ replicate 9 0 @ [2] @ replicate 9 0 @ [2] @ replicate 9 0 @ [2::nat] @ replicate 215 0))))
                 (fdiv (of_int ((int count - int 0) * (int (Max (set (replicate 10 0 @ [1] @ replicate 9 0 @ [2] @ replicate 9 0 @ [2] @ replicate 9 0 @ [2::nat] @ replicate 215 0))) - int (Min (set (replicate 10 0 @ [1] @ replicate 9 0 @ [2] @ replicate 9 0 @ [2] @ replicate 9 0 @ [2::nat] @ replicate 215 0))))))
                       (of_int (int 1 - int 0))))
             else Max (set (replicate 10 0 @ [1] @ replicate 9 0 @ [2] @ replicate 9 0 @ [2] @ replicate 9 0 @ [2::nat] @ replicate 215 0))) (replicate 10 0 @ [1] @ replicate 9 0 @ [2] @ replicate 9 0 @ [2] @ replicate 9 0 @ [2::nat] @ replicate 215 0))"
proof -
  let ?h = "(replicate 10 0 @ [1] @ replicate 9 0 @ [2] @ replicate 9 0 @ [2] @ replicate 9 0 @ [2::nat] @ replicate 215 0)"
  have p1: "percentile_ranks (fl (1 / 200)) = (0, 99)" by (rule bars_ranks)
  have p2: "percentile ?h (of_int 0) = Inr 0" using bars_percentiles(1) by simp
  have p3: "percentile ?h (of_int 99) = Inr (29 / 20)" using bars_percentiles(2) by simp
  have p4: "filter (\<lambda>h. (0::rat) \<le> of_nat h) ?h \<noteq> []"
    and p5: "filter (\<lambda>h. of_nat h \<le> (29 / 20 :: rat)) ?h \<noteq> []"
    using bars_bounds(6) by blast+
  have p6: "0 = Min {h \<in> set ?h. (0::rat) \<le> of_nat h}"
    using bars_bounds(3) by (simp only: set_filter)
  have p7: "1 = Max {h \<in> set ?h. of_nat h \<le> (29 / 20 :: rat)}"
    using bars_bounds(4) by (simp only: set_filter)
  have p8: "(0 :: nat) < 1" by simp
  from percentile_clip_remap [OF p1 p2 p3 p4 p5 p6 p7 p8] p1 p2 p3 p8 show ?thesis
    by blast
qed

end
